theory Spec2Isabelle
  imports Main "HOL-Library.AList"
begin

section \<open>The example daemon of components/examples/daemon.py\<close>

text \<open>
  The daemon is one procedural script: it configures logging, probes the broker in a
  bounded retry loop, loads one JSON event from a file, stamps three timestamp fields,
  turns the field \<open>flattened_scores\<close> into a JSON string when it is a list, and publishes
  the event. Everything the script does to the outside (log calls, sleeps, broker calls,
  opening the file, producing, flushing) is recorded as a list of effects in the order in
  which it happens; every exception the script can meet is a value.
\<close>

subsection \<open>Python values\<close>

text \<open>
  What \<open>json.load\<close> can return. A dict is an association list in insertion order; a float
  is carried by the text \<open>repr\<close> gives for it, since the script never computes with it.
\<close>

datatype json =
    JNull
  | JBool bool
  | JInt int
  | JFloat string
  | JStr string
  | JList "json list"
  | JObj "(string \<times> json) list"

text \<open>Exceptions: the class and the text \<open>str(e)\<close> gives.\<close>

datatype exc_class =
    KafkaException
  | FileNotFoundError
  | PermissionError
  | IsADirectoryError
  | JSONDecodeError
  | UnicodeDecodeError
  | ValueError
  | TypeError
  | KeyError
  | KeyboardInterrupt

datatype py_exception = Exc (cls: exc_class) (msg: string)

text \<open>
  \<open>except Exception\<close> catches every class above but \<open>KeyboardInterrupt\<close>, which derives
  from \<open>BaseException\<close> only.
\<close>

fun isinstance_Exception :: "exc_class \<Rightarrow> bool" where
  "isinstance_Exception KeyboardInterrupt = False"
| "isinstance_Exception _ = True"

text \<open>\<open>isinstance(v, list)\<close>\<close>

fun isinstance_list :: "json \<Rightarrow> bool" where
  "isinstance_list (JList xs) = True"
| "isinstance_list _ = False"

text \<open>The apostrophe, which a string literal cannot hold.\<close>

definition apos :: string where
  "apos = [CHR 0x27]"

definition no_item_assignment :: "string \<Rightarrow> py_exception" where
  "no_item_assignment tname =
     Exc TypeError (apos @ tname @ apos @ '' object does not support item assignment'')"

text \<open>
  \<open>event[k] = v\<close>: a dict stores the value (an existing key keeps its place, a new key goes
  last); every other value raises \<open>TypeError\<close>.
\<close>

fun setitem :: "json \<Rightarrow> string \<Rightarrow> json \<Rightarrow> py_exception + json" where
  "setitem (JObj kvs) k v = Inr (JObj (AList.update k v kvs))"
| "setitem (JList xs) k v =
     Inl (Exc TypeError ''list indices must be integers or slices, not str'')"
| "setitem JNull k v = Inl (no_item_assignment ''NoneType'')"
| "setitem (JBool b) k v = Inl (no_item_assignment ''bool'')"
| "setitem (JInt i) k v = Inl (no_item_assignment ''int'')"
| "setitem (JFloat f) k v = Inl (no_item_assignment ''float'')"
| "setitem (JStr s) k v = Inl (no_item_assignment ''str'')"

text \<open>
  \<open>event[k]\<close>: a dict gives the value stored under the key or raises \<open>KeyError\<close>; every
  other value raises \<open>TypeError\<close> for a string key.
\<close>

definition not_subscriptable :: "string \<Rightarrow> py_exception" where
  "not_subscriptable tname =
     Exc TypeError (apos @ tname @ apos @ '' object is not subscriptable'')"

fun getitem :: "json \<Rightarrow> string \<Rightarrow> py_exception + json" where
  "getitem (JObj kvs) k =
     (case map_of kvs k of
        None \<Rightarrow> Inl (Exc KeyError (apos @ k @ apos))
      | Some v \<Rightarrow> Inr v)"
| "getitem (JList xs) k =
     Inl (Exc TypeError ''list indices must be integers or slices, not str'')"
| "getitem (JStr s) k =
     Inl (Exc TypeError (''string indices must be integers, not '' @ apos @ ''str'' @ apos))"
| "getitem JNull k = Inl (not_subscriptable ''NoneType'')"
| "getitem (JBool b) k = Inl (not_subscriptable ''bool'')"
| "getitem (JInt i) k = Inl (not_subscriptable ''int'')"
| "getitem (JFloat f) k = Inl (not_subscriptable ''float'')"

text \<open>\<open>range(n)\<close> for an integer \<open>n\<close>: empty when \<open>n \<le> 0\<close>.\<close>

definition py_range :: "int \<Rightarrow> nat list" where
  "py_range n = [0..<nat n]"

subsection \<open>The instant and its ISO-8601 text\<close>

text \<open>
  What \<open>datetime.utcnow()\<close> returns: a naive datetime (no time zone), with the fields in
  the ranges of the \<open>datetime\<close> class (year 1 to 9999, microsecond below 1000000).
\<close>

record datetime =
  dt_year :: nat
  dt_month :: nat
  dt_day :: nat
  dt_hour :: nat
  dt_minute :: nat
  dt_second :: nat
  dt_microsecond :: nat

definition digit_char :: "nat \<Rightarrow> char" where
  "digit_char d = ''0123456789'' ! d"

text \<open>The last \<open>w\<close> decimal digits of \<open>n\<close>, padded with zeros on the left.\<close>

fun zero_padded :: "nat \<Rightarrow> nat \<Rightarrow> string" where
  "zero_padded 0 n = []"
| "zero_padded (Suc w) n = zero_padded w (n div 10) @ [digit_char (n mod 10)]"

text \<open>
  \<open>datetime.isoformat()\<close> of a naive datetime: \<open>YYYY-MM-DDTHH:MM:SS.ffffff\<close>, the fraction
  left out when the microsecond is 0.
\<close>

definition isoformat :: "datetime \<Rightarrow> string" where
  "isoformat d =
     zero_padded 4 (dt_year d) @ ''-'' @ zero_padded 2 (dt_month d) @ ''-'' @
     zero_padded 2 (dt_day d) @ ''T'' @ zero_padded 2 (dt_hour d) @ '':'' @
     zero_padded 2 (dt_minute d) @ '':'' @ zero_padded 2 (dt_second d) @
     (if dt_microsecond d = 0 then [] else ''.'' @ zero_padded 6 (dt_microsecond d))"

subsection \<open>The outside world\<close>

text \<open>
  Opening the event file either fails with an operating-system error or gives the
  content of the file. Reading it, \<open>json.load\<close> meets bytes that are not text in the
  encoding of \<open>open\<close> (\<open>UnicodeDecodeError\<close>), or text outside the JSON grammar
  (\<open>JSONDecodeError\<close>), or JSON text with an integer of more digits than the interpreter
  converts (\<open>ValueError\<close>), or JSON text that it parses to a value.
\<close>

datatype os_error = ENOENT | EACCES | EISDIR

fun open_error :: "os_error \<Rightarrow> exc_class" where
  "open_error ENOENT = FileNotFoundError"
| "open_error EACCES = PermissionError"
| "open_error EISDIR = IsADirectoryError"

datatype file_content = Undecodable | NotJSON | OverlongInteger | JSONText json

datatype file_state = OpenFails os_error | Holds file_content

text \<open>
  What the broker client reports for the one message within the flush timeout: nothing,
  a delivery, or an error.
\<close>

datatype delivery = Unreported | Acked | Errored string

text \<open>
  The world the script runs in. \<open>list_topics env servers timeout i\<close> is what creating the
  admin client and listing the topics does on attempt \<open>i\<close>: \<open>None\<close> when the topics are
  listed, \<open>Some e\<close> when \<open>e\<close> is raised. \<open>json_dumps\<close> is \<open>json.dumps\<close>.
\<close>

record env =
  environ :: "string \<rightharpoonup> string"
  list_topics :: "string \<Rightarrow> int \<Rightarrow> nat \<Rightarrow> py_exception option"
  files :: "string \<Rightarrow> file_state"
  utcnow :: datetime
  json_dumps :: "json \<Rightarrow> string"
  delivery :: delivery


definition getenv :: "env \<Rightarrow> string \<Rightarrow> string \<Rightarrow> string" where
  "getenv env name dflt = (case environ env name of None \<Rightarrow> dflt | Some v \<Rightarrow> v)"

definition CKN_LOG_FILE :: "env \<Rightarrow> string" where
  "CKN_LOG_FILE env = getenv env ''CKN_LOG_FILE'' ''ckn_example.log''"

definition KAFKA_BROKER :: "env \<Rightarrow> string" where
  "KAFKA_BROKER env = getenv env ''CKN_KAFKA_BROKER'' ''broker:29092''"

definition KAFKA_TOPIC :: "env \<Rightarrow> string" where
  "KAFKA_TOPIC env = getenv env ''CKN_KAFKA_TOPIC'' ''oracle-events''"

subsection \<open>Logging\<close>

datatype level = DEBUG | INFO | WARNING | ERROR | CRITICAL

fun levelno :: "level \<Rightarrow> nat" where
  "levelno DEBUG = 10"
| "levelno INFO = 20"
| "levelno WARNING = 30"
| "levelno ERROR = 40"
| "levelno CRITICAL = 50"

datatype stream = Stdout | Stderr

datatype sink = FileSink string | StreamSink stream

record handler =
  h_level :: nat
  h_sink :: sink

record logger =
  l_level :: nat
  handlers :: "handler list"

text \<open>
  The constructors of the \<open>logging\<close> module: a new handler has level \<open>NOTSET\<close> (0), and
  \<open>StreamHandler\<close> called without a stream writes to \<open>sys.stderr\<close>. The root logger starts
  at level \<open>WARNING\<close> with no handler.
\<close>

definition FileHandler :: "string \<Rightarrow> handler" where
  "FileHandler filename = \<lparr>h_level = 0, h_sink = FileSink filename\<rparr>"

definition StreamHandler :: "stream option \<Rightarrow> handler" where
  "StreamHandler s =
     \<lparr>h_level = 0, h_sink = StreamSink (case s of None \<Rightarrow> Stderr | Some t \<Rightarrow> t)\<rparr>"

definition getLogger :: logger where
  "getLogger = \<lparr>l_level = levelno WARNING, handlers = []\<rparr>"

definition addHandler :: "handler \<Rightarrow> logger \<Rightarrow> logger" where
  "addHandler h l = l\<lparr>handlers := handlers l @ [h]\<rparr>"

text \<open>
  \<open>setup_logging\<close>, lines 15 to 36 (the formatter only shapes the line): the root logger
  it leaves when the log file opens.
\<close>

definition setup_logging :: "env \<Rightarrow> logger" where
  "setup_logging env =
     (let root_logger = getLogger\<lparr>l_level := levelno DEBUG\<rparr>;
          file_handler = (FileHandler (CKN_LOG_FILE env))\<lparr>h_level := levelno INFO\<rparr>;
          root_logger = addHandler file_handler root_logger;
          console_handler = (StreamHandler None)\<lparr>h_level := levelno INFO\<rparr>
      in addHandler console_handler root_logger)"


text \<open>
  Where one logging call ends up: in the sink of every handler whose level the record
  reaches, when the record reaches the logger's level at all.
\<close>

definition emit :: "logger \<Rightarrow> level \<Rightarrow> string \<Rightarrow> (sink \<times> string) list" where
  "emit l lvl m =
     (if l_level l \<le> levelno lvl
      then map (\<lambda>h. (h_sink h, m)) (filter (\<lambda>h. h_level h \<le> levelno lvl) (handlers l))
      else [])"

subsection \<open>Effects\<close>

datatype effect =
    OpenLog string
  | LogCall level string
  | Sleep nat
  | AdminListTopics string int
  | OpenFile string
  | Produce string string
  | Flush nat

subsection \<open>The functions of the script\<close>

text \<open>
  The loop of \<open>test_ckn_broker_connection\<close>, lines 46 to 55, over the attempt numbers that
  are left. The first attempt that lists the topics returns \<open>True\<close>; a failure that
  \<open>except Exception\<close> catches is logged and followed by a sleep of 5 seconds; any other
  exception leaves the function; after the loop the failure is logged and \<open>False\<close>
  returned.
\<close>

fun attempts :: "env \<Rightarrow> string \<Rightarrow> int \<Rightarrow> nat list \<Rightarrow> (py_exception + bool) \<times> effect list" where
  "attempts env bootstrap_servers timeout [] =
     (Inr False, [LogCall ERROR ''Could not connect to the CKN broker...''])"
| "attempts env bootstrap_servers timeout (i # rest) =
     (case list_topics env bootstrap_servers timeout i of
        None \<Rightarrow> (Inr True, [AdminListTopics bootstrap_servers timeout])
      | Some e \<Rightarrow>
          if isinstance_Exception (cls e)
          then (let (r, es) = attempts env bootstrap_servers timeout rest
                in (r, [AdminListTopics bootstrap_servers timeout,
                        LogCall INFO (''CKN broker not available yet: '' @ msg e @
                                      ''. Retrying in 5 seconds...''),
                        Sleep 5] @ es))
          else (Inl e, [AdminListTopics bootstrap_servers timeout]))"

definition test_ckn_broker_connection ::
  "env \<Rightarrow> string \<Rightarrow> int \<Rightarrow> int \<Rightarrow> (py_exception + bool) \<times> effect list" where
  "test_ckn_broker_connection env bootstrap_servers timeout num_tries =
     attempts env bootstrap_servers timeout (py_range num_tries)"

text \<open>\<open>delivery_report\<close>, lines 57 to 64; \<open>topic\<close> is what \<open>msg.topic()\<close> gives.\<close>

definition delivery_report :: "string option \<Rightarrow> string \<Rightarrow> effect list" where
  "delivery_report err topic =
     (case err of
        Some e \<Rightarrow> [LogCall ERROR (''Delivery failed: '' @ e)]
      | None \<Rightarrow> [LogCall INFO (''Produced example event to '' @ apos @ topic @ apos @
                               '' topic'')])"

text \<open>The body of the \<open>try\<close> of \<open>read_event_from_file\<close>: open the file and parse it.\<close>

definition open_and_load :: "env \<Rightarrow> string \<Rightarrow> py_exception + json" where
  "open_and_load env file_path =
     (case files env file_path of
        OpenFails err \<Rightarrow> Inl (Exc (open_error err) file_path)
      | Holds Undecodable \<Rightarrow>
          Inl (Exc UnicodeDecodeError ''codec cannot decode byte: invalid start byte'')
      | Holds NotJSON \<Rightarrow> Inl (Exc JSONDecodeError ''Expecting value'')
      | Holds OverlongInteger \<Rightarrow>
          Inl (Exc ValueError ''Exceeds the limit for integer string conversion'')
      | Holds (JSONText v) \<Rightarrow> Inr v)"

text \<open>
  \<open>read_event_from_file\<close>, lines 66 to 78. Python's \<open>None\<close> is \<open>JNull\<close>, the value that
  \<open>json.load\<close> gives for the text \<open>null\<close> as well.
\<close>

definition read_event_from_file :: "env \<Rightarrow> string \<Rightarrow> (py_exception + json) \<times> effect list" where
  "read_event_from_file env file_path =
     (case open_and_load env file_path of
        Inr v \<Rightarrow> (Inr v, [OpenFile file_path])
      | Inl e \<Rightarrow>
          if cls e = FileNotFoundError
          then (Inr JNull,
                [OpenFile file_path, LogCall ERROR (''Event file not found: '' @ file_path)])
          else if cls e = JSONDecodeError
          then (Inr JNull,
                [OpenFile file_path,
                 LogCall ERROR (''Invalid JSON in event file: '' @ file_path)])
          else (Inl e, [OpenFile file_path]))"

text \<open>Lines 99 to 107: the three timestamps, then \<open>flattened_scores\<close>.\<close>

definition transform :: "env \<Rightarrow> json \<Rightarrow> py_exception + json" where
  "transform env event =
     (let current_timestamp = isoformat (utcnow env);
          stamp = JStr (current_timestamp @ ''Z'')
      in case setitem event ''image_receiving_timestamp'' stamp of
           Inl e \<Rightarrow> Inl e
         | Inr event1 \<Rightarrow>
      (case setitem event1 ''image_scoring_timestamp'' stamp of
           Inl e \<Rightarrow> Inl e
         | Inr event2 \<Rightarrow>
      (case setitem event2 ''image_store_delete_time'' stamp of
           Inl e \<Rightarrow> Inl e
         | Inr event3 \<Rightarrow>
      (case getitem event3 ''flattened_scores'' of
           Inl e \<Rightarrow> Inl e
         | Inr scores \<Rightarrow>
             if isinstance_list scores
             then setitem event3 ''flattened_scores'' (JStr (json_dumps env scores))
             else Inr event3))))"

text \<open>
  Lines 111 and 112 when \<open>produce\<close> takes the message: the call, then the flush for one
  second, during which the delivery callback runs if the client has a report.
\<close>

definition publish :: "env \<Rightarrow> json \<Rightarrow> effect list" where
  "publish env event =
     [Produce (KAFKA_TOPIC env) (json_dumps env event), Flush 1] @
     (case delivery env of
        Unreported \<Rightarrow> []
      | Acked \<Rightarrow> delivery_report None (KAFKA_TOPIC env)
      | Errored err \<Rightarrow> delivery_report (Some err) (KAFKA_TOPIC env))"

text \<open>
  How the process ends: \<open>sys.exit(n)\<close>, an exception nobody catches, or the end of the
  script. The interpreter's exit status is \<open>n\<close>; 1 for an uncaught exception, but 130
  for \<open>KeyboardInterrupt\<close>; and 0.
\<close>

datatype outcome = Exit int | Uncaught py_exception | Finished



text \<open>
  Lines 93 to 112, what the script does once the broker has answered, in a world where
  the producer raises nothing.
\<close>

definition load_and_publish :: "env \<Rightarrow> outcome \<times> effect list" where
  "load_and_publish env =
     (case read_event_from_file env ''/app/event.json'' of
        (Inl e, es) \<Rightarrow> (Uncaught e, es)
      | (Inr event, es) \<Rightarrow>
          if event = JNull
          then (Exit 1, es @ [LogCall ERROR ''Failed to read event data. Shutting down.''])
          else (case transform env event of
                  Inl e \<Rightarrow> (Uncaught e, es)
                | Inr event' \<Rightarrow> (Finished, es @ publish env event')))"

text \<open>
  Lines 84 to 112: the script after \<open>setup_logging\<close> has returned, in a world where the
  producer raises nothing.
\<close>

definition main :: "env \<Rightarrow> outcome \<times> effect list" where
  "main env =
     (let connecting = [LogCall INFO (''Connecting to the CKN broker at '' @ KAFKA_BROKER env)]
      in case test_ckn_broker_connection env (KAFKA_BROKER env) 10 5 of
           (Inl e, es) \<Rightarrow> (Uncaught e, connecting @ es)
         | (Inr False, es) \<Rightarrow>
             (Exit 1, connecting @ es @
                [LogCall ERROR ''Shutting down CKN Daemon due to broker not being available''])
         | (Inr True, es) \<Rightarrow>
             (let (out, es') = load_and_publish env
              in (out, connecting @ es @
                    [LogCall INFO (''Successfully connected to the CKN broker at '' @
                                   KAFKA_BROKER env)] @ es')))"



text \<open>
  The payload handed to the broker client, if the run gets that far.
\<close>

fun payloads :: "effect list \<Rightarrow> string list" where
  "payloads [] = []"
| "payloads (Produce topic p # es) = p # payloads es"
| "payloads (_ # es) = payloads es"

subsection \<open>Notions the properties are stated with\<close>

text \<open>What one failed attempt leaves in the trace: the call, the log line, the sleep.\<close>

definition failed_attempt :: "env \<Rightarrow> string \<Rightarrow> int \<Rightarrow> nat \<Rightarrow> effect list" where
  "failed_attempt env bootstrap_servers timeout i =
     [AdminListTopics bootstrap_servers timeout,
      LogCall INFO (''CKN broker not available yet: '' @
                    (case list_topics env bootstrap_servers timeout i of
                       Some e \<Rightarrow> msg e | None \<Rightarrow> []) @
                    ''. Retrying in 5 seconds...''),
      Sleep 5]"

fun is_sleep :: "effect \<Rightarrow> bool" where
  "is_sleep (Sleep n) = True"
| "is_sleep _ = False"

fun is_object :: "json \<Rightarrow> bool" where
  "is_object (JObj kvs) = True"
| "is_object _ = False"

text \<open>The class of the exception that ended the process, if one did.\<close>

fun uncaught_class :: "outcome \<Rightarrow> exc_class option" where
  "uncaught_class (Uncaught e) = Some (cls e)"
| "uncaught_class _ = None"


text \<open>The keys the transformer writes.\<close>

definition written_keys :: "string set" where
  "written_keys = {''image_receiving_timestamp'', ''image_scoring_timestamp'',
                   ''image_store_delete_time'', ''flattened_scores''}"

subsection \<open>A concrete world\<close>

text \<open>
  \<open>json.dumps\<close> with its default arguments, for values whose strings are printable ASCII:
  items separated by a comma and a space, keys from values by a colon and a space, the
  quotation mark and the backslash escaped.
\<close>

fun nat_text :: "nat \<Rightarrow> string" where
  "nat_text n =
     (if n < 10 then [digit_char n] else nat_text (n div 10) @ [digit_char (n mod 10)])"

definition int_text :: "int \<Rightarrow> string" where
  "int_text i = (if i < 0 then ''-'' @ nat_text (nat (- i)) else nat_text (nat i))"

fun join :: "string \<Rightarrow> string list \<Rightarrow> string" where
  "join sep [] = []"
| "join sep [x] = x"
| "join sep (x # y # ys) = x @ sep @ join sep (y # ys)"

fun escape :: "string \<Rightarrow> string" where
  "escape [] = []"
| "escape (c # cs) =
     (if c = CHR 0x22 \<or> c = CHR 0x5C then CHR 0x5C # c # escape cs else c # escape cs)"

definition quoted :: "string \<Rightarrow> string" where
  "quoted s = CHR 0x22 # escape s @ [CHR 0x22]"

fun dumps_ascii :: "json \<Rightarrow> string" where
  "dumps_ascii JNull = ''null''"
| "dumps_ascii (JBool b) = (if b then ''true'' else ''false'')"
| "dumps_ascii (JInt i) = int_text i"
| "dumps_ascii (JFloat r) = r"
| "dumps_ascii (JStr s) = quoted s"
| "dumps_ascii (JList xs) = ''['' @ join '', '' (map dumps_ascii xs) @ '']''"
| "dumps_ascii (JObj kvs) =
     ''{'' @ join '', '' (map (\<lambda>(k, v). quoted k @ '': '' @ dumps_ascii v) kvs) @ ''}''"

definition sample_event :: "(string \<times> json) list" where
  "sample_event =
     [(''device_id'', JStr ''cam-1''),
      (''image_scoring_timestamp'', JStr ''2020-01-01T00:00:00Z''),
      (''flattened_scores'', JList [JFloat ''0.9'', JFloat ''0.1'']),
      (''image_count'', JInt 3)]"

text \<open>
  A broker that answers on the third attempt, the sample event in the file, no variable
  set in the environment, and a delivery that is acknowledged.
\<close>

definition demo_env :: env where
  "demo_env =
     \<lparr>environ = Map.empty,
      list_topics = (\<lambda>servers timeout i.
         if i < 2 then Some (Exc KafkaException ''Local: Broker transport failure'')
         else None),
      files = (\<lambda>path. if path = ''/app/event.json'' then Holds (JSONText (JObj sample_event))
                       else OpenFails ENOENT),
      utcnow = \<lparr>dt_year = 2024, dt_month = 3, dt_day = 9, dt_hour = 7, dt_minute = 5,
                dt_second = 0, dt_microsecond = 123\<rparr>,
      json_dumps = dumps_ascii,
      delivery = Acked\<rparr>"

text \<open>The same world with a broker that never answers.\<close>

definition down_env :: env where
  "down_env =
     demo_env\<lparr>list_topics := (\<lambda>servers timeout i.
        Some (Exc KafkaException ''Local: Broker transport failure''))\<rparr>"

text \<open>The same world with another event file.\<close>

definition file_env :: "file_state \<Rightarrow> env" where
  "file_env st = demo_env\<lparr>files := (\<lambda>path. st)\<rparr>"



text \<open>An event whose scores are a string already.\<close>

definition string_event :: "(string \<times> json) list" where
  "string_event =
     [(''device_id'', JStr ''cam-2''),
      (''flattened_scores'', JStr ''[0.5, 0.5]'')]"

section \<open>Properties\<close>

subsection \<open>The broker reachability probe\<close>

lemma attempts_all_fail:
  "\<forall>i\<in>set is. \<exists>e. list_topics env bs t i = Some e \<and> isinstance_Exception (cls e) \<Longrightarrow>
   attempts env bs t is =
     (Inr False, concat (map (failed_attempt env bs t) is) @
                 [LogCall ERROR ''Could not connect to the CKN broker...''])"
  by (induction "is") (auto simp: failed_attempt_def)

lemma attempts_first_success:
  "\<forall>i\<in>set pre. \<exists>e. list_topics env bs t i = Some e \<and> isinstance_Exception (cls e) \<Longrightarrow>
   list_topics env bs t j = None \<Longrightarrow>
   attempts env bs t (pre @ j # post) =
     (Inr True, concat (map (failed_attempt env bs t) pre) @ [AdminListTopics bs t])"
  by (induction pre) (auto simp: failed_attempt_def)

lemma attempts_returns:
  "\<forall>i\<in>set is. \<forall>e. list_topics env bs t i = Some e \<longrightarrow> isinstance_Exception (cls e) \<Longrightarrow>
   \<exists>b. fst (attempts env bs t is) = Inr b"
  by (induction "is") (auto split: option.splits prod.splits)

lemma attempts_no_open: "OpenFile p \<notin> set (snd (attempts env bs t is))"
  by (induction "is") (auto split: option.splits prod.splits)

lemma attempts_True_success:
  "fst (attempts env bs t is) = Inr True \<Longrightarrow> \<exists>j\<in>set is. list_topics env bs t j = None"
  by (induction "is") (auto split: option.splits prod.splits if_splits)

lemma upt_split_at: "j < n \<Longrightarrow> [0..<n] = [0..<j] @ j # [Suc j..<n]"
  by (metis upt_conv_Cons upt_add_eq_append le0 less_imp_le_nat plus_nat.add_0 le_add_diff_inverse)

text \<open>
  Claim C1. Whatever the broker address, if the failures of the attempts are exceptions
  that \<open>except Exception\<close> catches (connection failures are), the probe returns a boolean
  and raises nothing. If some attempt lists the topics the result is \<open>True\<close>; on the
  first attempt that succeeds the function returns at once, each earlier failure having
  been logged, and no later attempt is made. If every attempt fails the result is
  \<open>False\<close>, after all of them were made and logged.
\<close>

theorem probe_C1:
  assumes caught: "\<forall>i<nat n. \<forall>e. list_topics env bs t i = Some e \<longrightarrow> isinstance_Exception (cls e)"
  shows "(\<exists>b. fst (test_ckn_broker_connection env bs t n) = Inr b) \<and>
    ((\<exists>i<nat n. list_topics env bs t i = None) \<longrightarrow>
       fst (test_ckn_broker_connection env bs t n) = Inr True) \<and>
    (\<forall>j<nat n. list_topics env bs t j = None \<and> (\<forall>i<j. list_topics env bs t i \<noteq> None) \<longrightarrow>
       test_ckn_broker_connection env bs t n =
         (Inr True, concat (map (failed_attempt env bs t) [0..<j]) @ [AdminListTopics bs t])) \<and>
    ((\<forall>i<nat n. list_topics env bs t i \<noteq> None) \<longrightarrow>
       test_ckn_broker_connection env bs t n =
         (Inr False, concat (map (failed_attempt env bs t) [0..<nat n]) @
                     [LogCall ERROR ''Could not connect to the CKN broker...'']))"
proof -
  have first: "test_ckn_broker_connection env bs t n =
         (Inr True, concat (map (failed_attempt env bs t) [0..<j]) @ [AdminListTopics bs t])"
    if j: "j < nat n" and ok: "list_topics env bs t j = None"
      and before: "\<forall>i<j. list_topics env bs t i \<noteq> None" for j
  proof -
    have "\<forall>i\<in>set [0..<j]. \<exists>e. list_topics env bs t i = Some e \<and> isinstance_Exception (cls e)"
    proof
      fix i assume "i \<in> set [0..<j]"
      then have ij: "i < j" by simp
      with before obtain e where e: "list_topics env bs t i = Some e" by auto
      from ij j have "i < nat n" by simp
      with caught e have "isinstance_Exception (cls e)" by blast
      with e show "\<exists>e. list_topics env bs t i = Some e \<and> isinstance_Exception (cls e)" by blast
    qed
    from attempts_first_success [OF this ok, of "[Suc j..<nat n]"] upt_split_at [OF j]
    show ?thesis by (simp add: test_ckn_broker_connection_def py_range_def)
  qed
  have returns: "\<exists>b. fst (test_ckn_broker_connection env bs t n) = Inr b"
    unfolding test_ckn_broker_connection_def py_range_def
    by (rule attempts_returns) (use caught in auto)
  have some: "fst (test_ckn_broker_connection env bs t n) = Inr True"
    if "\<exists>i<nat n. list_topics env bs t i = None"
  proof -
    define j where "j = (LEAST i. i < nat n \<and> list_topics env bs t i = None)"
    from that have jp: "j < nat n \<and> list_topics env bs t j = None"
      unfolding j_def by (rule LeastI_ex)
    have "list_topics env bs t i \<noteq> None" if "i < j" for i
      using not_less_Least [of i "\<lambda>i. i < nat n \<and> list_topics env bs t i = None"] that jp
      unfolding j_def by auto
    with first [of j] jp show ?thesis by simp
  qed
  have none: "test_ckn_broker_connection env bs t n =
         (Inr False, concat (map (failed_attempt env bs t) [0..<nat n]) @
                     [LogCall ERROR ''Could not connect to the CKN broker...''])"
    if "\<forall>i<nat n. list_topics env bs t i \<noteq> None"
    unfolding test_ckn_broker_connection_def py_range_def
    by (rule attempts_all_fail) (use that caught in auto)
  from returns some first none show ?thesis by blast
qed

text \<open>
  The theorem at work: five attempts against a broker that answers on the third, and
  against one that never answers.
\<close>

theorem probe_C1_witness:
  "test_ckn_broker_connection demo_env ''broker:29092'' 10 5 =
     (Inr True, failed_attempt demo_env ''broker:29092'' 10 0 @
                failed_attempt demo_env ''broker:29092'' 10 1 @
                [AdminListTopics ''broker:29092'' 10]) \<and>
   test_ckn_broker_connection down_env ''broker:29092'' 10 5 =
     (Inr False, concat (map (failed_attempt down_env ''broker:29092'' 10) [0, 1, 2, 3, 4]) @
                 [LogCall ERROR ''Could not connect to the CKN broker...''])"
proof -
  have up: "\<forall>i<nat 5. \<forall>e. list_topics demo_env ''broker:29092'' 10 i = Some e \<longrightarrow>
              isinstance_Exception (cls e)"
    by (simp add: demo_env_def)
  have third: "(2::nat) < nat 5 \<and> list_topics demo_env ''broker:29092'' 10 2 = None \<and>
      (\<forall>i<2. list_topics demo_env ''broker:29092'' 10 i \<noteq> None)"
    by (simp add: demo_env_def)
  have down: "\<forall>i<nat 5. \<forall>e. list_topics down_env ''broker:29092'' 10 i = Some e \<longrightarrow>
              isinstance_Exception (cls e)"
    by (simp add: down_env_def demo_env_def)
  have never: "\<forall>i<nat 5. list_topics down_env ''broker:29092'' 10 i \<noteq> None"
    by (simp add: down_env_def demo_env_def)
  have two: "[0..<2] = [0, Suc 0]"
    by code_simp
  have five: "[0..<nat 5] = [0, 1, 2, 3, 4]"
    by code_simp
  from probe_C1 [OF up] third have a: "test_ckn_broker_connection demo_env ''broker:29092'' 10 5 =
     (Inr True, concat (map (failed_attempt demo_env ''broker:29092'' 10) [0..<2]) @
                [AdminListTopics ''broker:29092'' 10])"
    by blast
  from probe_C1 [OF down] never have b: "test_ckn_broker_connection down_env ''broker:29092'' 10 5 =
     (Inr False, concat (map (failed_attempt down_env ''broker:29092'' 10) [0..<nat 5]) @
                 [LogCall ERROR ''Could not connect to the CKN broker...''])"
    by blast
  show ?thesis using a b unfolding two five by simp
qed

text \<open>
  Claim C8. Against a broker that never answers, the five attempts leave five sleeps in
  the trace: the last attempt is followed by the line announcing a retry and by a sleep
  of 5 seconds, and only then is the failure reported. The claim has no sleep there.
\<close>

theorem sleep_after_last_attempt_C8:
  "test_ckn_broker_connection down_env ''broker:29092'' 10 5 =
     (Inr False,
      [AdminListTopics ''broker:29092'' 10,
       LogCall INFO ''CKN broker not available yet: Local: Broker transport failure. Retrying in 5 seconds...'',
       Sleep 5,
       AdminListTopics ''broker:29092'' 10,
       LogCall INFO ''CKN broker not available yet: Local: Broker transport failure. Retrying in 5 seconds...'',
       Sleep 5,
       AdminListTopics ''broker:29092'' 10,
       LogCall INFO ''CKN broker not available yet: Local: Broker transport failure. Retrying in 5 seconds...'',
       Sleep 5,
       AdminListTopics ''broker:29092'' 10,
       LogCall INFO ''CKN broker not available yet: Local: Broker transport failure. Retrying in 5 seconds...'',
       Sleep 5,
       AdminListTopics ''broker:29092'' 10,
       LogCall INFO ''CKN broker not available yet: Local: Broker transport failure. Retrying in 5 seconds...'',
       Sleep 5,
       LogCall ERROR ''Could not connect to the CKN broker...'']) \<and>
   length (filter is_sleep
     (snd (test_ckn_broker_connection down_env ''broker:29092'' 10 5))) = 5"
proof -
  have five: "[0..<nat 5] = [0, 1, 2, 3, 4]"
    by code_simp
  have run: "test_ckn_broker_connection down_env ''broker:29092'' 10 5 =
     (Inr False,
      [AdminListTopics ''broker:29092'' 10,
       LogCall INFO ''CKN broker not available yet: Local: Broker transport failure. Retrying in 5 seconds...'',
       Sleep 5,
       AdminListTopics ''broker:29092'' 10,
       LogCall INFO ''CKN broker not available yet: Local: Broker transport failure. Retrying in 5 seconds...'',
       Sleep 5,
       AdminListTopics ''broker:29092'' 10,
       LogCall INFO ''CKN broker not available yet: Local: Broker transport failure. Retrying in 5 seconds...'',
       Sleep 5,
       AdminListTopics ''broker:29092'' 10,
       LogCall INFO ''CKN broker not available yet: Local: Broker transport failure. Retrying in 5 seconds...'',
       Sleep 5,
       AdminListTopics ''broker:29092'' 10,
       LogCall INFO ''CKN broker not available yet: Local: Broker transport failure. Retrying in 5 seconds...'',
       Sleep 5,
       LogCall ERROR ''Could not connect to the CKN broker...''])"
    unfolding test_ckn_broker_connection_def py_range_def five
    by (simp add: down_env_def demo_env_def)
  show ?thesis
    unfolding run by simp
qed

subsection \<open>The event loader\<close>

lemma read_absent:
  "files env p = OpenFails ENOENT \<Longrightarrow>
   read_event_from_file env p =
     (Inr JNull, [OpenFile p, LogCall ERROR (''Event file not found: '' @ p)])"
  by (simp add: read_event_from_file_def open_and_load_def)

lemma read_invalid:
  "files env p = Holds NotJSON \<Longrightarrow>
   read_event_from_file env p =
     (Inr JNull, [OpenFile p, LogCall ERROR (''Invalid JSON in event file: '' @ p)])"
  by (simp add: read_event_from_file_def open_and_load_def)

lemma read_parsed:
  "files env p = Holds (JSONText v) \<Longrightarrow> read_event_from_file env p = (Inr v, [OpenFile p])"
  by (simp add: read_event_from_file_def open_and_load_def)

lemma read_other:
  "files env p = OpenFails err \<Longrightarrow> err \<noteq> ENOENT \<Longrightarrow>
   read_event_from_file env p = (Inl (Exc (open_error err) p), [OpenFile p])"
  by (cases err) (simp_all add: read_event_from_file_def open_and_load_def)

lemma read_undecodable:
  "files env p = Holds Undecodable \<Longrightarrow>
   \<exists>m. read_event_from_file env p = (Inl (Exc UnicodeDecodeError m), [OpenFile p])"
  by (simp add: read_event_from_file_def open_and_load_def)

lemma read_overlong:
  "files env p = Holds OverlongInteger \<Longrightarrow>
   \<exists>m. read_event_from_file env p = (Inl (Exc ValueError m), [OpenFile p])"
  by (simp add: read_event_from_file_def open_and_load_def)

lemma read_none_iff:
  "fst (read_event_from_file env p) = Inr JNull \<longleftrightarrow>
     files env p = OpenFails ENOENT \<or> files env p = Holds NotJSON \<or>
     files env p = Holds (JSONText JNull)"
proof (cases "files env p")
  case (OpenFails err)
  show ?thesis
  proof (cases "err = ENOENT")
    case True
    with OpenFails read_absent [of env p] show ?thesis by simp
  next
    case False
    with OpenFails read_other [of env p err] show ?thesis by simp
  qed
next
  case (Holds c)
  show ?thesis
  proof (cases c)
    case Undecodable
    with Holds read_undecodable [of env p] show ?thesis by auto
  next
    case NotJSON
    with Holds read_invalid [of env p] show ?thesis by simp
  next
    case OverlongInteger
    with Holds read_overlong [of env p] show ?thesis by auto
  next
    case (JSONText v)
    with Holds read_parsed [of env p v] show ?thesis by simp
  qed
qed

text \<open>
  Claim C2, as amended. \<open>read_event_from_file\<close> returns \<open>None\<close> exactly when the file is
  absent, or its content is text that \<open>json.load\<close> rejects as not being JSON, or its
  content is the JSON value \<open>null\<close>. In the first two cases the failure is logged; a file
  that opens and parses gives the parsed value with nothing logged. Every other failure
  leaves the function as an exception with nothing logged: content that is not text in
  the file's encoding (\<open>UnicodeDecodeError\<close>), an integer of too many digits
  (\<open>ValueError\<close>), and an error of \<open>open\<close> other than the file not being there.
\<close>

theorem read_event_C2:
  "(fst (read_event_from_file env p) = Inr JNull \<longleftrightarrow>
      files env p = OpenFails ENOENT \<or> files env p = Holds NotJSON \<or>
      files env p = Holds (JSONText JNull)) \<and>
   (files env p = OpenFails ENOENT \<longrightarrow>
      read_event_from_file env p =
        (Inr JNull, [OpenFile p, LogCall ERROR (''Event file not found: '' @ p)])) \<and>
   (files env p = Holds NotJSON \<longrightarrow>
      read_event_from_file env p =
        (Inr JNull, [OpenFile p, LogCall ERROR (''Invalid JSON in event file: '' @ p)])) \<and>
   (\<forall>v. files env p = Holds (JSONText v) \<longrightarrow>
      read_event_from_file env p = (Inr v, [OpenFile p])) \<and>
   (files env p = Holds Undecodable \<longrightarrow>
      (\<exists>m. read_event_from_file env p = (Inl (Exc UnicodeDecodeError m), [OpenFile p]))) \<and>
   (files env p = Holds OverlongInteger \<longrightarrow>
      (\<exists>m. read_event_from_file env p = (Inl (Exc ValueError m), [OpenFile p]))) \<and>
   (\<forall>err. files env p = OpenFails err \<and> err \<noteq> ENOENT \<longrightarrow>
      read_event_from_file env p = (Inl (Exc (open_error err) p), [OpenFile p]))"
proof (intro conjI impI allI)
  show "fst (read_event_from_file env p) = Inr JNull \<longleftrightarrow>
      files env p = OpenFails ENOENT \<or> files env p = Holds NotJSON \<or>
      files env p = Holds (JSONText JNull)"
    by (rule read_none_iff)
next
  assume "files env p = OpenFails ENOENT"
  then show "read_event_from_file env p =
        (Inr JNull, [OpenFile p, LogCall ERROR (''Event file not found: '' @ p)])"
    by (rule read_absent)
next
  assume "files env p = Holds NotJSON"
  then show "read_event_from_file env p =
        (Inr JNull, [OpenFile p, LogCall ERROR (''Invalid JSON in event file: '' @ p)])"
    by (rule read_invalid)
next
  fix v assume "files env p = Holds (JSONText v)"
  then show "read_event_from_file env p = (Inr v, [OpenFile p])"
    by (rule read_parsed)
next
  assume "files env p = Holds Undecodable"
  then show "\<exists>m. read_event_from_file env p = (Inl (Exc UnicodeDecodeError m), [OpenFile p])"
    by (rule read_undecodable)
next
  assume "files env p = Holds OverlongInteger"
  then show "\<exists>m. read_event_from_file env p = (Inl (Exc ValueError m), [OpenFile p])"
    by (rule read_overlong)
next
  fix err assume "files env p = OpenFails err \<and> err \<noteq> ENOENT"
  then show "read_event_from_file env p = (Inl (Exc (open_error err) p), [OpenFile p])"
    using read_other [of env p err] by simp
qed

text \<open>
  On concrete files: the sample event, no file, a file of garbage text, a file of bytes
  that are not text, and a directory.
\<close>

theorem read_event_C2_witness:
  "read_event_from_file demo_env ''/app/event.json'' =
     (Inr (JObj sample_event), [OpenFile ''/app/event.json'']) \<and>
   read_event_from_file demo_env ''/app/other.json'' =
     (Inr JNull, [OpenFile ''/app/other.json'',
                  LogCall ERROR ''Event file not found: /app/other.json'']) \<and>
   read_event_from_file (file_env (Holds NotJSON)) ''/app/event.json'' =
     (Inr JNull, [OpenFile ''/app/event.json'',
                  LogCall ERROR ''Invalid JSON in event file: /app/event.json'']) \<and>
   (\<exists>m. read_event_from_file (file_env (Holds Undecodable)) ''/app/event.json'' =
     (Inl (Exc UnicodeDecodeError m), [OpenFile ''/app/event.json''])) \<and>
   read_event_from_file (file_env (OpenFails EISDIR)) ''/app/event.json'' =
     (Inl (Exc IsADirectoryError ''/app/event.json''), [OpenFile ''/app/event.json''])"
proof -
  have a: "files demo_env ''/app/event.json'' = Holds (JSONText (JObj sample_event))"
    by (simp add: demo_env_def)
  have b: "files demo_env ''/app/other.json'' = OpenFails ENOENT"
    by (simp add: demo_env_def)
  have c: "files (file_env (Holds NotJSON)) ''/app/event.json'' = Holds NotJSON"
    by (simp add: file_env_def)
  have d: "files (file_env (Holds Undecodable)) ''/app/event.json'' = Holds Undecodable"
    by (simp add: file_env_def)
  have e: "files (file_env (OpenFails EISDIR)) ''/app/event.json'' = OpenFails EISDIR \<and>
      EISDIR \<noteq> ENOENT"
    by (simp add: file_env_def)
  note t1 = read_event_C2 [of demo_env "''/app/event.json''"]
  note t2 = read_event_C2 [of demo_env "''/app/other.json''"]
  note t3 = read_event_C2 [of "file_env (Holds NotJSON)" "''/app/event.json''"]
  note t4 = read_event_C2 [of "file_env (Holds Undecodable)" "''/app/event.json''"]
  note t5 = read_event_C2 [of "file_env (OpenFails EISDIR)" "''/app/event.json''"]
  have 1: "read_event_from_file demo_env ''/app/event.json'' =
     (Inr (JObj sample_event), [OpenFile ''/app/event.json''])"
    using t1 [THEN conjunct2, THEN conjunct2, THEN conjunct2, THEN conjunct1, THEN spec,
        THEN mp, OF a] .
  have 2: "read_event_from_file demo_env ''/app/other.json'' =
     (Inr JNull, [OpenFile ''/app/other.json'',
                  LogCall ERROR (''Event file not found: '' @ ''/app/other.json'')])"
    using t2 [THEN conjunct2, THEN conjunct1, THEN mp, OF b] .
  have 3: "read_event_from_file (file_env (Holds NotJSON)) ''/app/event.json'' =
     (Inr JNull, [OpenFile ''/app/event.json'',
                  LogCall ERROR (''Invalid JSON in event file: '' @ ''/app/event.json'')])"
    using t3 [THEN conjunct2, THEN conjunct2, THEN conjunct1, THEN mp, OF c] .
  have 4: "\<exists>m. read_event_from_file (file_env (Holds Undecodable)) ''/app/event.json'' =
     (Inl (Exc UnicodeDecodeError m), [OpenFile ''/app/event.json''])"
    using t4 [THEN conjunct2, THEN conjunct2, THEN conjunct2, THEN conjunct2, THEN conjunct1,
        THEN mp, OF d] .
  have 5: "read_event_from_file (file_env (OpenFails EISDIR)) ''/app/event.json'' =
     (Inl (Exc (open_error EISDIR) ''/app/event.json''), [OpenFile ''/app/event.json''])"
    using t5 [THEN conjunct2, THEN conjunct2, THEN conjunct2, THEN conjunct2, THEN conjunct2,
        THEN conjunct2, THEN spec, THEN mp, OF e] .
  from 1 2 3 4 5 show ?thesis by simp
qed

text \<open>
  Against C2 as stated: a file that exists and holds the valid JSON text \<open>null\<close> makes the
  function return \<open>None\<close> too, and nothing is logged.
\<close>

theorem read_event_C2_counterexample:
  "files (file_env (Holds (JSONText JNull))) ''/app/event.json'' = Holds (JSONText JNull) \<and>
   read_event_from_file (file_env (Holds (JSONText JNull))) ''/app/event.json'' =
     (Inr JNull, [OpenFile ''/app/event.json'']) \<and>
   \<not> (fst (read_event_from_file (file_env (Holds (JSONText JNull))) ''/app/event.json'') = Inr JNull
        \<longleftrightarrow> files (file_env (Holds (JSONText JNull))) ''/app/event.json'' = OpenFails ENOENT \<or>
            files (file_env (Holds (JSONText JNull))) ''/app/event.json'' = Holds NotJSON)"
  by (simp add: file_env_def read_event_from_file_def open_and_load_def)

subsection \<open>Logging\<close>

text \<open>
  Claim C9. \<open>setup_logging\<close> installs two handlers of level \<open>INFO\<close> on a root logger of level
  \<open>DEBUG\<close>: records of level \<open>INFO\<close> and \<open>ERROR\<close> reach both sinks, \<open>DEBUG\<close> reaches none.
  The sinks are the log file and the standard error stream: the console handler is
  created without a stream, and the claim has it write to standard output.
\<close>

theorem console_handler_C9:
  "handlers (setup_logging env) =
     [\<lparr>h_level = 20, h_sink = FileSink (CKN_LOG_FILE env)\<rparr>,
      \<lparr>h_level = 20, h_sink = StreamSink Stderr\<rparr>] \<and>
   l_level (setup_logging env) = 10 \<and>
   emit (setup_logging env) INFO m =
     [(FileSink (CKN_LOG_FILE env), m), (StreamSink Stderr, m)] \<and>
   emit (setup_logging env) ERROR m =
     [(FileSink (CKN_LOG_FILE env), m), (StreamSink Stderr, m)] \<and>
   emit (setup_logging env) DEBUG m = []"
  by (simp add: setup_logging_def getLogger_def addHandler_def FileHandler_def
      StreamHandler_def emit_def Let_def)

subsection \<open>The run of the script\<close>

lemma payloads_append: "payloads (xs @ ys) = payloads xs @ payloads ys"
  by (induction xs rule: payloads.induct) simp_all

lemma attempts_payloads: "payloads (snd (attempts env bs t is)) = []"
  by (induction "is") (auto split: option.splits prod.splits)

lemma probe_payloads: "payloads (snd (test_ckn_broker_connection env bs t n)) = []"
  by (simp add: test_ckn_broker_connection_def attempts_payloads)

lemma probe_no_open: "OpenFile p \<notin> set (snd (test_ckn_broker_connection env bs t n))"
  by (simp add: test_ckn_broker_connection_def attempts_no_open)

lemma publish_payloads: "payloads (publish env ev) = [json_dumps env ev]"
  by (cases "delivery env") (simp_all add: publish_def delivery_report_def)

text \<open>The dict after the three timestamp assignments.\<close>

lemma filter_update_other:
  "k \<in> S \<Longrightarrow> filter (\<lambda>q. fst q \<notin> S) (AList.update k v al) = filter (\<lambda>q. fst q \<notin> S) al"
  by (induction al) auto

lemma transform_object:
  assumes "map_of kvs ''flattened_scores'' = Some scores"
  shows "transform env (JObj kvs) =
    Inr (JObj (let stamp = JStr (isoformat (utcnow env) @ ''Z'');
                   kvs3 = AList.update ''image_store_delete_time'' stamp
                           (AList.update ''image_scoring_timestamp'' stamp
                             (AList.update ''image_receiving_timestamp'' stamp kvs))
               in if isinstance_list scores
                  then AList.update ''flattened_scores'' (JStr (json_dumps env scores)) kvs3
                  else kvs3))"
  using assms by (simp add: transform_def Let_def update_conv')

lemma transform_no_key:
  assumes "map_of kvs ''flattened_scores'' = None"
  shows "transform env (JObj kvs) = Inl (Exc KeyError (apos @ ''flattened_scores'' @ apos))"
  using assms by (simp add: transform_def Let_def update_conv')

lemma transform_not_object:
  assumes "\<not> is_object v"
  shows "\<exists>m. transform env v = Inl (Exc TypeError m)"
  using assms by (cases v) (simp_all add: transform_def Let_def no_item_assignment_def)

lemma main_after_probe:
  assumes "fst (test_ckn_broker_connection env (KAFKA_BROKER env) 10 5) = Inr True"
  shows "main env =
    (fst (load_and_publish env),
     [LogCall INFO (''Connecting to the CKN broker at '' @ KAFKA_BROKER env)] @
     snd (test_ckn_broker_connection env (KAFKA_BROKER env) 10 5) @
     [LogCall INFO (''Successfully connected to the CKN broker at '' @ KAFKA_BROKER env)] @
     snd (load_and_publish env))"
  using assms by (cases "test_ckn_broker_connection env (KAFKA_BROKER env) 10 5")
    (simp add: main_def Let_def split: prod.splits)

lemma main_probe_failed:
  assumes "fst (test_ckn_broker_connection env (KAFKA_BROKER env) 10 5) = Inr False"
  shows "main env =
    (Exit 1,
     [LogCall INFO (''Connecting to the CKN broker at '' @ KAFKA_BROKER env)] @
     snd (test_ckn_broker_connection env (KAFKA_BROKER env) 10 5) @
     [LogCall ERROR ''Shutting down CKN Daemon due to broker not being available''])"
  using assms by (cases "test_ckn_broker_connection env (KAFKA_BROKER env) 10 5")
    (simp add: main_def Let_def)

lemma main_probe_raised:
  assumes "fst (test_ckn_broker_connection env (KAFKA_BROKER env) 10 5) = Inl e"
  shows "main env =
    (Uncaught e,
     [LogCall INFO (''Connecting to the CKN broker at '' @ KAFKA_BROKER env)] @
     snd (test_ckn_broker_connection env (KAFKA_BROKER env) 10 5))"
  using assms by (cases "test_ckn_broker_connection env (KAFKA_BROKER env) 10 5")
    (simp add: main_def Let_def)

lemma load_publish_object:
  assumes "files env ''/app/event.json'' = Holds (JSONText (JObj kvs))"
    and "transform env (JObj kvs) = Inr ev"
  shows "load_and_publish env = (Finished, OpenFile ''/app/event.json'' # publish env ev)"
  using assms by (simp add: load_and_publish_def read_parsed)

lemma load_publish_raises:
  assumes "files env ''/app/event.json'' = Holds (JSONText v)" and "v \<noteq> JNull"
    and "transform env v = Inl e"
  shows "load_and_publish env = (Uncaught e, [OpenFile ''/app/event.json''])"
  using assms by (simp add: load_and_publish_def read_parsed)

lemma load_publish_null:
  assumes "fst (read_event_from_file env ''/app/event.json'') = Inr JNull"
  shows "load_and_publish env =
    (Exit 1, snd (read_event_from_file env ''/app/event.json'') @
             [LogCall ERROR ''Failed to read event data. Shutting down.''])"
  using assms by (cases "read_event_from_file env ''/app/event.json''")
    (simp add: load_and_publish_def)

lemma main_publishes:
  assumes "fst (test_ckn_broker_connection env (KAFKA_BROKER env) 10 5) = Inr True"
    and "files env ''/app/event.json'' = Holds (JSONText (JObj kvs))"
    and "transform env (JObj kvs) = Inr ev"
  shows "fst (main env) = Finished \<and> payloads (snd (main env)) = [json_dumps env ev]"
  using assms
  by (simp add: main_after_probe load_publish_object payloads_append probe_payloads
      publish_payloads)

subsection \<open>Facts of the concrete world\<close>

lemma five_attempts: "py_range 5 = [0, 1, 2, 3, 4]"
  unfolding py_range_def by code_simp

lemma demo_probe:
  "fst (test_ckn_broker_connection demo_env (KAFKA_BROKER demo_env) 10 5) = Inr True"
  unfolding test_ckn_broker_connection_def five_attempts by (simp add: demo_env_def)

lemma file_env_probe:
  "fst (test_ckn_broker_connection (file_env st) (KAFKA_BROKER (file_env st)) 10 5) = Inr True"
  unfolding test_ckn_broker_connection_def five_attempts by (simp add: demo_env_def file_env_def)

lemma demo_file: "files demo_env ''/app/event.json'' = Holds (JSONText (JObj sample_event))"
  by (simp add: demo_env_def)

lemma file_env_file: "files (file_env st) p = st"
  by (simp add: file_env_def)

lemma demo_key: "map_of sample_event ''flattened_scores'' = Some (JList [JFloat ''0.9'', JFloat ''0.1''])"
  by (simp add: sample_event_def)

lemma string_key: "map_of string_event ''flattened_scores'' = Some (JStr ''[0.5, 0.5]'')"
  by (simp add: string_event_def)

lemma demo_now: "isoformat (utcnow demo_env) = ''2024-03-09T07:05:00.000123''"
  by code_simp

lemma demo_dumps: "json_dumps demo_env = dumps_ascii"
  by (simp add: demo_env_def)

lemma file_env_dumps: "json_dumps (file_env st) = dumps_ascii"
  by (simp add: demo_env_def file_env_def)

lemma scores_text: "dumps_ascii (JList [JFloat ''0.9'', JFloat ''0.1'']) = ''[0.9, 0.1]''"
  by simp

subsection \<open>The transformer and the payload\<close>

text \<open>
  Claim C3. For an event file that holds a JSON object with the key \<open>flattened_scores\<close>,
  read after the broker has answered, the script publishes one payload, the JSON text of
  the transformed event; in it the three timestamp fields are equal to each other and
  each is the ISO-8601 text of the one instant read from the clock, followed by \<open>Z\<close>.
\<close>

theorem timestamps_C3:
  assumes probe: "fst (test_ckn_broker_connection env (KAFKA_BROKER env) 10 5) = Inr True"
    and evfile: "files env ''/app/event.json'' = Holds (JSONText (JObj kvs))"
    and key: "map_of kvs ''flattened_scores'' = Some scores"
  shows "\<exists>kvs'. transform env (JObj kvs) = Inr (JObj kvs') \<and>
           payloads (snd (main env)) = [json_dumps env (JObj kvs')] \<and>
           map_of kvs' ''image_receiving_timestamp'' = Some (JStr (isoformat (utcnow env) @ ''Z'')) \<and>
           map_of kvs' ''image_scoring_timestamp'' = Some (JStr (isoformat (utcnow env) @ ''Z'')) \<and>
           map_of kvs' ''image_store_delete_time'' = Some (JStr (isoformat (utcnow env) @ ''Z'')) \<and>
           map_of kvs' ''image_receiving_timestamp'' = map_of kvs' ''image_scoring_timestamp'' \<and>
           map_of kvs' ''image_scoring_timestamp'' = map_of kvs' ''image_store_delete_time''"
proof -
  from transform_object [OF key, of env] obtain kvs' where
    t: "transform env (JObj kvs) = Inr (JObj kvs')" and
    k: "kvs' = (let stamp = JStr (isoformat (utcnow env) @ ''Z'');
                   kvs3 = AList.update ''image_store_delete_time'' stamp
                           (AList.update ''image_scoring_timestamp'' stamp
                             (AList.update ''image_receiving_timestamp'' stamp kvs))
               in if isinstance_list scores
                  then AList.update ''flattened_scores'' (JStr (json_dumps env scores)) kvs3
                  else kvs3)"
    by blast
  have p: "payloads (snd (main env)) = [json_dumps env (JObj kvs')]"
    using main_publishes [OF probe evfile t] by simp
  have a: "map_of kvs' ''image_receiving_timestamp'' = Some (JStr (isoformat (utcnow env) @ ''Z''))"
    unfolding k by (simp add: Let_def update_conv')
  have b: "map_of kvs' ''image_scoring_timestamp'' = Some (JStr (isoformat (utcnow env) @ ''Z''))"
    unfolding k by (simp add: Let_def update_conv')
  have c: "map_of kvs' ''image_store_delete_time'' = Some (JStr (isoformat (utcnow env) @ ''Z''))"
    unfolding k by (simp add: Let_def update_conv')
  from t p a b c show ?thesis by simp
qed

text \<open>The sample event, published by the concrete world at its instant.\<close>

theorem timestamps_C3_witness:
  "fst (test_ckn_broker_connection demo_env (KAFKA_BROKER demo_env) 10 5) = Inr True \<and>
   files demo_env ''/app/event.json'' = Holds (JSONText (JObj sample_event)) \<and>
   (\<exists>kvs'. transform demo_env (JObj sample_event) = Inr (JObj kvs') \<and>
      payloads (snd (main demo_env)) = [dumps_ascii (JObj kvs')] \<and>
      map_of kvs' ''image_receiving_timestamp'' = Some (JStr ''2024-03-09T07:05:00.000123Z'') \<and>
      map_of kvs' ''image_scoring_timestamp'' = Some (JStr ''2024-03-09T07:05:00.000123Z'') \<and>
      map_of kvs' ''image_store_delete_time'' = Some (JStr ''2024-03-09T07:05:00.000123Z''))"
proof -
  have stamp: "isoformat (utcnow demo_env) @ ''Z'' = ''2024-03-09T07:05:00.000123Z''"
    by (simp add: demo_now)
  note ex = timestamps_C3 [OF demo_probe demo_file demo_key, unfolded stamp demo_dumps]
  from ex have "\<exists>kvs'. transform demo_env (JObj sample_event) = Inr (JObj kvs') \<and>
      payloads (snd (main demo_env)) = [dumps_ascii (JObj kvs')] \<and>
      map_of kvs' ''image_receiving_timestamp'' = Some (JStr ''2024-03-09T07:05:00.000123Z'') \<and>
      map_of kvs' ''image_scoring_timestamp'' = Some (JStr ''2024-03-09T07:05:00.000123Z'') \<and>
      map_of kvs' ''image_store_delete_time'' = Some (JStr ''2024-03-09T07:05:00.000123Z'')"
    by (elim exE conjE, intro exI conjI) assumption+
  with demo_probe demo_file show ?thesis by (intro conjI)
qed

text \<open>
  Claim C4. In the published event, \<open>flattened_scores\<close> is the string that \<open>json.dumps\<close>
  gives for the list when the loaded field is a list, and the loaded value itself when
  it is anything else, a string in particular.
\<close>

theorem flattened_scores_C4:
  assumes probe: "fst (test_ckn_broker_connection env (KAFKA_BROKER env) 10 5) = Inr True"
    and evfile: "files env ''/app/event.json'' = Holds (JSONText (JObj kvs))"
    and key: "map_of kvs ''flattened_scores'' = Some scores"
  shows "\<exists>kvs'. transform env (JObj kvs) = Inr (JObj kvs') \<and>
           payloads (snd (main env)) = [json_dumps env (JObj kvs')] \<and>
           (\<forall>xs. scores = JList xs \<longrightarrow>
              map_of kvs' ''flattened_scores'' = Some (JStr (json_dumps env (JList xs)))) \<and>
           (\<not> isinstance_list scores \<longrightarrow> map_of kvs' ''flattened_scores'' = Some scores)"
proof -
  from transform_object [OF key, of env] obtain kvs' where
    t: "transform env (JObj kvs) = Inr (JObj kvs')" and
    k: "kvs' = (let stamp = JStr (isoformat (utcnow env) @ ''Z'');
                   kvs3 = AList.update ''image_store_delete_time'' stamp
                           (AList.update ''image_scoring_timestamp'' stamp
                             (AList.update ''image_receiving_timestamp'' stamp kvs))
               in if isinstance_list scores
                  then AList.update ''flattened_scores'' (JStr (json_dumps env scores)) kvs3
                  else kvs3)"
    by blast
  have p: "payloads (snd (main env)) = [json_dumps env (JObj kvs')]"
    using main_publishes [OF probe evfile t] by simp
  have a: "map_of kvs' ''flattened_scores'' = Some (JStr (json_dumps env (JList xs)))"
    if "scores = JList xs" for xs
    unfolding k using that by (simp add: Let_def update_conv')
  have b: "map_of kvs' ''flattened_scores'' = Some scores" if "\<not> isinstance_list scores"
    unfolding k using that key by (simp add: Let_def update_conv')
  from t p a b show ?thesis by blast
qed

text \<open>Both cases: the sample event with a list of scores, and an event with a string.\<close>

theorem flattened_scores_C4_witness:
  "(\<exists>kvs'. transform demo_env (JObj sample_event) = Inr (JObj kvs') \<and>
      payloads (snd (main demo_env)) = [dumps_ascii (JObj kvs')] \<and>
      map_of sample_event ''flattened_scores'' = Some (JList [JFloat ''0.9'', JFloat ''0.1'']) \<and>
      map_of kvs' ''flattened_scores'' = Some (JStr ''[0.9, 0.1]'')) \<and>
   (\<exists>kvs'. transform (file_env (Holds (JSONText (JObj string_event)))) (JObj string_event) =
        Inr (JObj kvs') \<and>
      payloads (snd (main (file_env (Holds (JSONText (JObj string_event)))))) =
        [dumps_ascii (JObj kvs')] \<and>
      map_of string_event ''flattened_scores'' = Some (JStr ''[0.5, 0.5]'') \<and>
      map_of kvs' ''flattened_scores'' = Some (JStr ''[0.5, 0.5]''))"
proof -
  note ex = flattened_scores_C4 [OF demo_probe demo_file demo_key, unfolded demo_dumps]
  from ex obtain kvs' where
    h: "transform demo_env (JObj sample_event) = Inr (JObj kvs') \<and>
        payloads (snd (main demo_env)) = [dumps_ascii (JObj kvs')] \<and>
        (\<forall>xs. JList [JFloat ''0.9'', JFloat ''0.1''] = JList xs \<longrightarrow>
           map_of kvs' ''flattened_scores'' = Some (JStr (dumps_ascii (JList xs)))) \<and>
        (\<not> isinstance_list (JList [JFloat ''0.9'', JFloat ''0.1'']) \<longrightarrow>
           map_of kvs' ''flattened_scores'' = Some (JList [JFloat ''0.9'', JFloat ''0.1'']))"
    by (erule exE)
  from h have t: "transform demo_env (JObj sample_event) = Inr (JObj kvs')"
    by (elim conjE)
  from h have p: "payloads (snd (main demo_env)) = [dumps_ascii (JObj kvs')]"
    by (elim conjE)
  from h have "\<forall>xs. JList [JFloat ''0.9'', JFloat ''0.1''] = JList xs \<longrightarrow>
           map_of kvs' ''flattened_scores'' = Some (JStr (dumps_ascii (JList xs)))"
    by (elim conjE)
  then have "map_of kvs' ''flattened_scores'' =
      Some (JStr (dumps_ascii (JList [JFloat ''0.9'', JFloat ''0.1''])))"
    by simp
  then have l: "map_of kvs' ''flattened_scores'' = Some (JStr ''[0.9, 0.1]'')"
    by (simp only: scores_text)
  from t p demo_key l have a: "\<exists>kvs'. transform demo_env (JObj sample_event) = Inr (JObj kvs') \<and>
      payloads (snd (main demo_env)) = [dumps_ascii (JObj kvs')] \<and>
      map_of sample_event ''flattened_scores'' = Some (JList [JFloat ''0.9'', JFloat ''0.1'']) \<and>
      map_of kvs' ''flattened_scores'' = Some (JStr ''[0.9, 0.1]'')"
    by (intro exI conjI)
  have f: "files (file_env (Holds (JSONText (JObj string_event)))) ''/app/event.json'' =
      Holds (JSONText (JObj string_event))"
    by (rule file_env_file)
  note ex2 = flattened_scores_C4 [OF file_env_probe f string_key, unfolded file_env_dumps]
  from ex2 obtain kvs'' where
    h2: "transform (file_env (Holds (JSONText (JObj string_event)))) (JObj string_event) =
           Inr (JObj kvs'') \<and>
        payloads (snd (main (file_env (Holds (JSONText (JObj string_event)))))) =
           [dumps_ascii (JObj kvs'')] \<and>
        (\<forall>xs. JStr ''[0.5, 0.5]'' = JList xs \<longrightarrow>
           map_of kvs'' ''flattened_scores'' = Some (JStr (dumps_ascii (JList xs)))) \<and>
        (\<not> isinstance_list (JStr ''[0.5, 0.5]'') \<longrightarrow>
           map_of kvs'' ''flattened_scores'' = Some (JStr ''[0.5, 0.5]''))"
    by (erule exE)
  from h2 have t2: "transform (file_env (Holds (JSONText (JObj string_event)))) (JObj string_event) =
           Inr (JObj kvs'')"
    by (elim conjE)
  from h2 have p2: "payloads (snd (main (file_env (Holds (JSONText (JObj string_event)))))) =
           [dumps_ascii (JObj kvs'')]"
    by (elim conjE)
  from h2 have "\<not> isinstance_list (JStr ''[0.5, 0.5]'') \<longrightarrow>
           map_of kvs'' ''flattened_scores'' = Some (JStr ''[0.5, 0.5]'')"
    by (elim conjE)
  then have l2: "map_of kvs'' ''flattened_scores'' = Some (JStr ''[0.5, 0.5]'')"
    by simp
  from t2 p2 string_key l2
  have b: "\<exists>kvs'. transform (file_env (Holds (JSONText (JObj string_event)))) (JObj string_event) =
        Inr (JObj kvs') \<and>
      payloads (snd (main (file_env (Holds (JSONText (JObj string_event)))))) =
        [dumps_ascii (JObj kvs')] \<and>
      map_of string_event ''flattened_scores'' = Some (JStr ''[0.5, 0.5]'') \<and>
      map_of kvs' ''flattened_scores'' = Some (JStr ''[0.5, 0.5]'')"
    by (intro exI conjI)
  from a b show ?thesis by (rule conjI)
qed

text \<open>
  Claim C7. The payload is the JSON text of the loaded event with only the three
  timestamp fields and \<open>flattened_scores\<close> possibly changed: every other key has the value
  it was loaded with, and the other pairs stand in the order in which they were loaded.
\<close>

theorem frame_C7:
  assumes probe: "fst (test_ckn_broker_connection env (KAFKA_BROKER env) 10 5) = Inr True"
    and evfile: "files env ''/app/event.json'' = Holds (JSONText (JObj kvs))"
    and key: "map_of kvs ''flattened_scores'' = Some scores"
  shows "\<exists>kvs'. transform env (JObj kvs) = Inr (JObj kvs') \<and>
           payloads (snd (main env)) = [json_dumps env (JObj kvs')] \<and>
           (\<forall>k. k \<notin> written_keys \<longrightarrow> map_of kvs' k = map_of kvs k) \<and>
           filter (\<lambda>q. fst q \<notin> written_keys) kvs' = filter (\<lambda>q. fst q \<notin> written_keys) kvs"
proof -
  from transform_object [OF key, of env] obtain kvs' where
    t: "transform env (JObj kvs) = Inr (JObj kvs')" and
    k: "kvs' = (let stamp = JStr (isoformat (utcnow env) @ ''Z'');
                   kvs3 = AList.update ''image_store_delete_time'' stamp
                           (AList.update ''image_scoring_timestamp'' stamp
                             (AList.update ''image_receiving_timestamp'' stamp kvs))
               in if isinstance_list scores
                  then AList.update ''flattened_scores'' (JStr (json_dumps env scores)) kvs3
                  else kvs3)"
    by blast
  have p: "payloads (snd (main env)) = [json_dumps env (JObj kvs')]"
    using main_publishes [OF probe evfile t] by simp
  have w: "''image_receiving_timestamp'' \<in> written_keys" "''image_scoring_timestamp'' \<in> written_keys"
    "''image_store_delete_time'' \<in> written_keys" "''flattened_scores'' \<in> written_keys"
    by (simp_all add: written_keys_def)
  have a: "map_of kvs' j = map_of kvs j" if "j \<notin> written_keys" for j
  proof -
    from that w have "j \<noteq> ''image_receiving_timestamp''" "j \<noteq> ''image_scoring_timestamp''"
      "j \<noteq> ''image_store_delete_time''" "j \<noteq> ''flattened_scores''"
      by blast+
    then show ?thesis unfolding k by (simp add: Let_def update_conv')
  qed
  have b: "filter (\<lambda>q. fst q \<notin> written_keys) kvs' = filter (\<lambda>q. fst q \<notin> written_keys) kvs"
    unfolding k by (simp add: Let_def filter_update_other [OF w(1)] filter_update_other [OF w(2)]
        filter_update_other [OF w(3)] filter_update_other [OF w(4)])
  from t p a b show ?thesis by blast
qed

text \<open>The two fields of the sample event that the transformer does not write.\<close>

theorem frame_C7_witness:
  "\<exists>kvs'. transform demo_env (JObj sample_event) = Inr (JObj kvs') \<and>
      payloads (snd (main demo_env)) = [dumps_ascii (JObj kvs')] \<and>
      map_of kvs' ''device_id'' = Some (JStr ''cam-1'') \<and>
      map_of kvs' ''image_count'' = Some (JInt 3) \<and>
      filter (\<lambda>q. fst q \<notin> written_keys) kvs' =
        [(''device_id'', JStr ''cam-1''), (''image_count'', JInt 3)]"
proof -
  note ex = frame_C7 [OF demo_probe demo_file demo_key, unfolded demo_dumps]
  from ex obtain kvs' where
    h: "transform demo_env (JObj sample_event) = Inr (JObj kvs') \<and>
        payloads (snd (main demo_env)) = [dumps_ascii (JObj kvs')] \<and>
        (\<forall>k. k \<notin> written_keys \<longrightarrow> map_of kvs' k = map_of sample_event k) \<and>
        filter (\<lambda>q. fst q \<notin> written_keys) kvs' =
          filter (\<lambda>q. fst q \<notin> written_keys) sample_event"
    by (erule exE)
  from h have t: "transform demo_env (JObj sample_event) = Inr (JObj kvs')"
    by (elim conjE)
  from h have p: "payloads (snd (main demo_env)) = [dumps_ascii (JObj kvs')]"
    by (elim conjE)
  from h have m: "\<forall>k. k \<notin> written_keys \<longrightarrow> map_of kvs' k = map_of sample_event k"
    by (elim conjE)
  from h have f: "filter (\<lambda>q. fst q \<notin> written_keys) kvs' =
          filter (\<lambda>q. fst q \<notin> written_keys) sample_event"
    by (elim conjE)
  have d: "''device_id'' \<notin> written_keys" and c: "''image_count'' \<notin> written_keys"
    by (simp_all add: written_keys_def)
  from m d have "map_of kvs' ''device_id'' = map_of sample_event ''device_id''"
    by (elim allE impE)
  then have 1: "map_of kvs' ''device_id'' = Some (JStr ''cam-1'')"
    by (simp add: sample_event_def)
  from m c have "map_of kvs' ''image_count'' = map_of sample_event ''image_count''"
    by (elim allE impE)
  then have 2: "map_of kvs' ''image_count'' = Some (JInt 3)"
    by (simp add: sample_event_def)
  have "filter (\<lambda>q. fst q \<notin> written_keys) sample_event =
        [(''device_id'', JStr ''cam-1''), (''image_count'', JInt 3)]"
    by (simp add: sample_event_def written_keys_def)
  with f have 3: "filter (\<lambda>q. fst q \<notin> written_keys) kvs' =
        [(''device_id'', JStr ''cam-1''), (''image_count'', JInt 3)]"
    by (rule trans)
  from t p 1 2 3 show ?thesis
    by (intro exI conjI)
qed

subsection \<open>Order of the steps and exit codes\<close>

lemma probe_all_fail:
  assumes "\<forall>i<5. \<exists>e. list_topics env bs t i = Some e \<and> isinstance_Exception (cls e)"
  shows "fst (test_ckn_broker_connection env bs t 5) = Inr False"
proof -
  have "\<forall>i\<in>set (py_range 5). \<exists>e. list_topics env bs t i = Some e \<and> isinstance_Exception (cls e)"
    using assms by (simp add: py_range_def)
  from attempts_all_fail [OF this] show ?thesis
    by (simp add: test_ckn_broker_connection_def)
qed

lemma probe_True_success:
  assumes "fst (test_ckn_broker_connection env bs t 5) = Inr True"
  shows "\<exists>j<5. list_topics env bs t j = None"
proof -
  from assms have "\<exists>j\<in>set (py_range 5). list_topics env bs t j = None"
    unfolding test_ckn_broker_connection_def by (rule attempts_True_success)
  then show ?thesis by (auto simp: py_range_def)
qed

lemma main_open_only_after_probe:
  assumes "OpenFile p \<in> set (snd (main env))"
  shows "fst (test_ckn_broker_connection env (KAFKA_BROKER env) 10 5) = Inr True"
proof (cases "fst (test_ckn_broker_connection env (KAFKA_BROKER env) 10 5)")
  case (Inl e)
  from main_probe_raised [OF Inl] assms probe_no_open [of p env "KAFKA_BROKER env" 10 5]
  show ?thesis by simp
next
  case (Inr b)
  show ?thesis
  proof (cases b)
    case True
    with Inr show ?thesis by simp
  next
    case False
    with Inr have "fst (test_ckn_broker_connection env (KAFKA_BROKER env) 10 5) = Inr False"
      by simp
    from main_probe_failed [OF this] assms probe_no_open [of p env "KAFKA_BROKER env" 10 5]
    show ?thesis by simp
  qed
qed

text \<open>
  Claim C5. If every one of the five attempts fails, the process exits with code 1 and
  the trace holds no opening of a file. Whenever a file is opened, the probe has returned
  \<open>True\<close>, some attempt having listed the topics, and the opening stands in the trace
  after all the effects of the probe.
\<close>

theorem no_read_before_probe_C5:
  "((\<forall>i<5. \<exists>e. list_topics env (KAFKA_BROKER env) 10 i = Some e \<and> isinstance_Exception (cls e)) \<longrightarrow>
      fst (main env) = Exit 1 \<and> (\<forall>p. OpenFile p \<notin> set (snd (main env)))) \<and>
   (\<forall>p. OpenFile p \<in> set (snd (main env)) \<longrightarrow>
      fst (test_ckn_broker_connection env (KAFKA_BROKER env) 10 5) = Inr True \<and>
      (\<exists>j<5. list_topics env (KAFKA_BROKER env) 10 j = None) \<and>
      (\<exists>post. snd (main env) =
          [LogCall INFO (''Connecting to the CKN broker at '' @ KAFKA_BROKER env)] @
          snd (test_ckn_broker_connection env (KAFKA_BROKER env) 10 5) @ post \<and>
        OpenFile p \<notin> set (snd (test_ckn_broker_connection env (KAFKA_BROKER env) 10 5)) \<and>
        OpenFile p \<in> set post))"
proof (intro conjI impI allI)
  assume down: "\<forall>i<5. \<exists>e. list_topics env (KAFKA_BROKER env) 10 i = Some e \<and>
                  isinstance_Exception (cls e)"
  from probe_all_fail [OF down] have f: "fst (test_ckn_broker_connection env (KAFKA_BROKER env) 10 5) = Inr False" .
  from main_probe_failed [OF f] show "fst (main env) = Exit 1" by simp
  fix p
  from main_probe_failed [OF f] probe_no_open [of p env "KAFKA_BROKER env" 10 5]
  show "OpenFile p \<notin> set (snd (main env))" by simp
next
  fix p assume o: "OpenFile p \<in> set (snd (main env))"
  from main_open_only_after_probe [OF o]
  show t: "fst (test_ckn_broker_connection env (KAFKA_BROKER env) 10 5) = Inr True" .
  from probe_True_success [OF t] show "\<exists>j<5. list_topics env (KAFKA_BROKER env) 10 j = None" .
  let ?post = "[LogCall INFO (''Successfully connected to the CKN broker at '' @ KAFKA_BROKER env)] @
     snd (load_and_publish env)"
  have n: "OpenFile p \<notin> set (snd (test_ckn_broker_connection env (KAFKA_BROKER env) 10 5))"
    by (rule probe_no_open)
  have m: "snd (main env) =
          [LogCall INFO (''Connecting to the CKN broker at '' @ KAFKA_BROKER env)] @
          snd (test_ckn_broker_connection env (KAFKA_BROKER env) 10 5) @ ?post"
    using main_after_probe [OF t] by simp
  with o n have "OpenFile p \<in> set ?post" by simp
  with m n show "\<exists>post. snd (main env) =
          [LogCall INFO (''Connecting to the CKN broker at '' @ KAFKA_BROKER env)] @
          snd (test_ckn_broker_connection env (KAFKA_BROKER env) 10 5) @ post \<and>
        OpenFile p \<notin> set (snd (test_ckn_broker_connection env (KAFKA_BROKER env) 10 5)) \<and>
        OpenFile p \<in> set post"
    by (intro exI [of _ ?post] conjI)
qed

lemma down_all_fail:
  "\<forall>i<5. \<exists>e. list_topics down_env (KAFKA_BROKER down_env) 10 i = Some e \<and>
      isinstance_Exception (cls e)"
  by (simp add: down_env_def demo_env_def)

lemma demo_opens: "OpenFile ''/app/event.json'' \<in> set (snd (main demo_env))"
proof -
  from transform_object [OF demo_key, of demo_env] obtain ev where
    "transform demo_env (JObj sample_event) = Inr ev" by simp
  from load_publish_object [OF demo_file this] main_after_probe [OF demo_probe]
  show ?thesis by simp
qed

text \<open>
  The broker that never answers, and the broker that answers on the third attempt.
\<close>

theorem no_read_before_probe_C5_witness:
  "fst (main down_env) = Exit 1 \<and>
   (\<forall>p. OpenFile p \<notin> set (snd (main down_env))) \<and>
   OpenFile ''/app/event.json'' \<in> set (snd (main demo_env)) \<and>
   fst (test_ckn_broker_connection demo_env (KAFKA_BROKER demo_env) 10 5) = Inr True \<and>
   (\<exists>j<5. list_topics demo_env (KAFKA_BROKER demo_env) 10 j = None)"
proof -
  note d = no_read_before_probe_C5 [of down_env, THEN conjunct1, THEN mp, OF down_all_fail]
  note u = no_read_before_probe_C5 [of demo_env, THEN conjunct2, THEN spec, THEN mp, OF demo_opens]
  from d have 1: "fst (main down_env) = Exit 1" by (rule conjunct1)
  from d have 2: "\<forall>p. OpenFile p \<notin> set (snd (main down_env))" by (rule conjunct2)
  from u have 3: "fst (test_ckn_broker_connection demo_env (KAFKA_BROKER demo_env) 10 5) = Inr True"
    by (rule conjunct1)
  from u have 4: "\<exists>j<5. list_topics demo_env (KAFKA_BROKER demo_env) 10 j = None"
    by (elim conjE)
  from 1 2 demo_opens 3 4 show ?thesis by (intro conjI)
qed






lemma main_unreadable:
  assumes "fst (test_ckn_broker_connection env (KAFKA_BROKER env) 10 5) = Inr True"
    and "fst (read_event_from_file env ''/app/event.json'') = Inr JNull"
  shows "fst (main env) = Exit 1"
  using main_after_probe [OF assms(1)] load_publish_null [OF assms(2)] by simp

lemma main_raises:
  assumes "fst (test_ckn_broker_connection env (KAFKA_BROKER env) 10 5) = Inr True"
    and "files env ''/app/event.json'' = Holds (JSONText v)" and "v \<noteq> JNull"
    and "transform env v = Inl e"
  shows "fst (main env) = Uncaught e \<and> payloads (snd (main env)) = []"
  using main_after_probe [OF assms(1)] load_publish_raises [OF assms(2,3,4)]
  by (simp add: payloads_append probe_payloads)




























text \<open>
  Claim C10, as amended. Once the broker has answered and the event file has parsed: a
  value that is neither \<open>null\<close> nor an object ends the process with an uncaught
  \<open>TypeError\<close>, an object without the key \<open>flattened_scores\<close> with an uncaught \<open>KeyError\<close>,
  nothing being published in either case; the value \<open>null\<close> is taken for a failed read
  and the process exits with code 1.
\<close>

theorem transformer_presupposes_C10:
  assumes probe: "fst (test_ckn_broker_connection env (KAFKA_BROKER env) 10 5) = Inr True"
    and evfile: "files env ''/app/event.json'' = Holds (JSONText v)"
  shows "(v = JNull \<longrightarrow> fst (main env) = Exit 1 \<and> uncaught_class (fst (main env)) = None) \<and>
    (v \<noteq> JNull \<and> \<not> is_object v \<longrightarrow>
       uncaught_class (fst (main env)) = Some TypeError \<and> payloads (snd (main env)) = []) \<and>
    (\<forall>kvs. v = JObj kvs \<and> map_of kvs ''flattened_scores'' = None \<longrightarrow>
       uncaught_class (fst (main env)) = Some KeyError \<and> payloads (snd (main env)) = [])"
proof (intro conjI impI allI)
  assume "v = JNull"
  with evfile have "fst (read_event_from_file env ''/app/event.json'') = Inr JNull"
    by (simp add: read_parsed)
  from main_unreadable [OF probe this] show "fst (main env) = Exit 1" .
  then show "uncaught_class (fst (main env)) = None" by simp
next
  assume a: "v \<noteq> JNull \<and> \<not> is_object v"
  then obtain m where "transform env v = Inl (Exc TypeError m)"
    using transform_not_object [of v env] by blast
  with a main_raises [OF probe evfile, of "Exc TypeError m"]
  show "uncaught_class (fst (main env)) = Some TypeError" "payloads (snd (main env)) = []"
    by simp_all
next
  fix kvs assume a: "v = JObj kvs \<and> map_of kvs ''flattened_scores'' = None"
  then have "transform env v = Inl (Exc KeyError (apos @ ''flattened_scores'' @ apos))"
    using transform_no_key [of kvs env] by simp
  with a main_raises [OF probe evfile, of "Exc KeyError (apos @ ''flattened_scores'' @ apos)"]
  show "uncaught_class (fst (main env)) = Some KeyError" "payloads (snd (main env)) = []"
    by simp_all
qed

text \<open>
  A list, an object without the key, and \<open>null\<close> in the event file.
\<close>

theorem transformer_presupposes_C10_witness:
  "uncaught_class (fst (main (file_env (Holds (JSONText (JList [JInt 1])))))) = Some TypeError \<and>
   payloads (snd (main (file_env (Holds (JSONText (JList [JInt 1])))))) = [] \<and>
   uncaught_class (fst (main (file_env (Holds (JSONText (JObj [(''device_id'', JStr ''cam-3'')])))))) =
     Some KeyError \<and>
   payloads (snd (main (file_env (Holds (JSONText (JObj [(''device_id'', JStr ''cam-3'')])))))) = [] \<and>
   fst (main (file_env (Holds (JSONText JNull)))) = Exit 1"
proof -
  have l: "JList [JInt 1] \<noteq> JNull \<and> \<not> is_object (JList [JInt 1])"
    by simp
  have fl: "files (file_env (Holds (JSONText (JList [JInt 1])))) ''/app/event.json'' =
      Holds (JSONText (JList [JInt 1]))"
    by (rule file_env_file)
  note a = transformer_presupposes_C10 [OF file_env_probe fl,
      THEN conjunct2, THEN conjunct1, THEN mp, OF l]
  have o: "JObj [(''device_id'', JStr ''cam-3'')] = JObj [(''device_id'', JStr ''cam-3'')] \<and>
      map_of [(''device_id'', JStr ''cam-3'')] ''flattened_scores'' = None"
    by simp
  have fo: "files (file_env (Holds (JSONText (JObj [(''device_id'', JStr ''cam-3'')]))))
        ''/app/event.json'' = Holds (JSONText (JObj [(''device_id'', JStr ''cam-3'')]))"
    by (rule file_env_file)
  note b = transformer_presupposes_C10 [OF file_env_probe fo,
      THEN conjunct2, THEN conjunct2, THEN spec, THEN mp, OF o]
  have fn: "files (file_env (Holds (JSONText JNull))) ''/app/event.json'' =
      Holds (JSONText JNull)"
    by (rule file_env_file)
  note c = transformer_presupposes_C10 [OF file_env_probe fn,
      THEN conjunct1, THEN mp, OF refl, THEN conjunct1]
  from a b c show ?thesis by (intro conjI) (elim conjE, assumption)+
qed

text \<open>
  Against C10 as stated: the text \<open>null\<close> parses and is not an object, yet the process
  takes the logged path and exits with code 1, no exception being raised.
\<close>

theorem transformer_presupposes_C10_counterexample:
  "fst (test_ckn_broker_connection (file_env (Holds (JSONText JNull)))
        (KAFKA_BROKER (file_env (Holds (JSONText JNull)))) 10 5) = Inr True \<and>
   files (file_env (Holds (JSONText JNull))) ''/app/event.json'' = Holds (JSONText JNull) \<and>
   \<not> is_object JNull \<and>
   fst (main (file_env (Holds (JSONText JNull)))) = Exit 1 \<and>
   uncaught_class (fst (main (file_env (Holds (JSONText JNull))))) \<notin>
     {Some TypeError, Some KeyError}"
proof -
  have f: "files (file_env (Holds (JSONText JNull))) ''/app/event.json'' = Holds (JSONText JNull)"
    by (rule file_env_file)
  then have "fst (read_event_from_file (file_env (Holds (JSONText JNull))) ''/app/event.json'') =
      Inr JNull"
    by (simp add: read_parsed)
  from main_unreadable [OF file_env_probe this]
  have e: "fst (main (file_env (Holds (JSONText JNull)))) = Exit 1" .
  then have "uncaught_class (fst (main (file_env (Holds (JSONText JNull))))) \<notin>
     {Some TypeError, Some KeyError}"
    by simp
  with file_env_probe [of "Holds (JSONText JNull)"] f e show ?thesis by simp
qed

end
